theory Spec2Isabelle
  imports Main
begin

section \<open>Values, records and queries\<close>

text \<open>
  JavaScript values as the service meets them. \<open>JUndefined\<close> is what reading a
  property that an object does not have yields.
\<close>

datatype json = JUndefined | JNull | JBool bool | JNum int | JStr string | JArr "json list"

text \<open>
  A Record is a plain object: an association list from field name to value, the first
  entry of a key being the one that counts. The order of the entries carries no meaning.
\<close>

type_synonym row = "(string \<times> json) list"

text \<open>\<^verbatim>\<open>obj[key]\<close>\<close>

definition get_field :: "row \<Rightarrow> string \<Rightarrow> json" where
  "get_field r k = (case map_of r k of None \<Rightarrow> JUndefined | Some v \<Rightarrow> v)"

text \<open>\<^verbatim>\<open>Object.keys(obj)\<close>\<close>

definition keys :: "('k \<times> 'v) list \<Rightarrow> 'k list" where
  "keys r = map fst r"

text \<open>\<^verbatim>\<open>obj[key] = v\<close>\<close>

fun set_field :: "'k \<Rightarrow> 'v \<Rightarrow> ('k \<times> 'v) list \<Rightarrow> ('k \<times> 'v) list" where
  "set_field k v [] = [(k, v)]"
| "set_field k v (p # r) = (if fst p = k then (k, v) # r else p # set_field k v r)"

text \<open>\<^verbatim>\<open>Object.assign(target, source)\<close> on plain objects.\<close>

definition assign :: "('k \<times> 'v) list \<Rightarrow> ('k \<times> 'v) list \<Rightarrow> ('k \<times> 'v) list" where
  "assign target source = foldl (\<lambda>acc p. set_field (fst p) (snd p) acc) target source"

text \<open>\<^verbatim>\<open>omit(obj, key)\<close> of lodash: the object without that key.\<close>

definition omit :: "('k \<times> 'v) list \<Rightarrow> 'k \<Rightarrow> ('k \<times> 'v) list" where
  "omit r k = filter (\<lambda>p. fst p \<noteq> k) r"

text \<open>The object restricted to the listed keys (lodash's \<^verbatim>\<open>pick\<close>).\<close>

definition pick :: "'k list \<Rightarrow> ('k \<times> 'v) list \<Rightarrow> ('k \<times> 'v) list" where
  "pick ks r = filter (\<lambda>p. fst p \<in> set ks) r"

text \<open>
  A QueryFilter: the reserved directives, which are read at the top level only, and the
  field predicates. A field maps to a bare value (equality) or to operator comparisons,
  all of which must hold. The operators are the closed set below; \<^verbatim>\<open>$like\<close> is not
  covered.
\<close>

datatype operator = Ne | Gt | Gte | Lt | Lte | In | Nin

datatype cond = Equals json | Ops "(operator \<times> json) list"

type_synonym predicates = "(string \<times> cond) list"

record query =
  q_limit :: "nat option"
  q_skip :: "int option"
  q_sort :: "(string \<times> int) list option"
  q_select :: "string list option"
  q_fields :: predicates

text \<open>\<^verbatim>\<open>{}\<close>, the value of \<^verbatim>\<open>params.query || {}\<close> when no query is given.\<close>

definition empty_query :: query where
  "empty_query = \<lparr>q_limit = None, q_skip = None, q_sort = None, q_select = None, q_fields = []\<rparr>"

record paginate =
  pg_default :: "nat option"
  pg_max :: "nat option"

text \<open>JavaScript truthiness of \<^verbatim>\<open>paginate.default\<close>: absent and \<open>0\<close> are both falsy.\<close>

definition truthy :: "nat option \<Rightarrow> bool" where
  "truthy n = (case n of None \<Rightarrow> False | Some k \<Rightarrow> k \<noteq> 0)"

datatype direction = ASC | DESC

text \<open>
  The options object of a storage-engine call. A field that is \<open>None\<close> is a property the
  object does not have. \<^verbatim>\<open>params.sequelize\<close>, the caller's passthrough options, has
  this type too.
\<close>

record opts =
  o_where :: "predicates option"
  o_order :: "(string \<times> direction) list option"
  o_limit :: "nat option"
  o_offset :: "nat option"
  o_attributes :: "string list option"

definition no_opts :: opts where
  "no_opts = \<lparr>o_where = None, o_order = None, o_limit = None, o_offset = None,
     o_attributes = None\<rparr>"

definition over :: "'a option \<Rightarrow> 'a option \<Rightarrow> 'a option" where
  "over a b = (case b of None \<Rightarrow> a | Some x \<Rightarrow> Some x)"

text \<open>\<^verbatim>\<open>Object.assign(target, source)\<close> on options: every property of the source wins.\<close>

definition assign_opts :: "opts \<Rightarrow> opts \<Rightarrow> opts" where
  "assign_opts target source =
     \<lparr>o_where = over (o_where target) (o_where source),
      o_order = over (o_order target) (o_order source),
      o_limit = over (o_limit target) (o_limit source),
      o_offset = over (o_offset target) (o_offset source),
      o_attributes = over (o_attributes target) (o_attributes source)\<rparr>"

record params =
  p_query :: "query option"
  p_paginate :: "paginate option"
  p_sequelize :: opts

record page =
  page_total :: nat
  page_limit :: "nat option"
  page_skip :: nat
  page_data :: "row list"

datatype result = One row | Many "row list"

datatype found = Page page | Data "row list"

datatype payload = PObj row | PArr "row list"

section \<open>Errors\<close>

text \<open>
  The failures of the source, under the names of the error taxonomy:
  \<open>ConfigurationError\<close> is the \<^verbatim>\<open>Error\<close> thrown by the constructor,
  \<open>InvalidOperation\<close> the rejection of \<^verbatim>\<open>update\<close> with its message,
  \<open>NotFound\<close> is \<^verbatim>\<open>errors.NotFound\<close>, carrying the id that the message
  \<^verbatim>\<open>No record found for id '...'\<close> prints. \<open>Raw\<close> is a failure as the storage engine
  raises it; \<open>BadRequest\<close> and \<open>StorageError\<close> are what the error handler makes of it.
\<close>

datatype engine_error = ValidationFailure string | EngineFailure string

datatype error =
    ConfigurationError string
  | InvalidOperation string
  | NotFound json
  | Raw engine_error
  | BadRequest string
  | StorageError string

text \<open>
  Modelled from the spec: \<^verbatim>\<open>utils.errorHandler\<close> is not part of the given source.
  The Error Normalizer keeps a not-found condition as \<open>NotFound\<close>, passes validation
  and constraint failures on in a normalized shape, and turns any other engine failure
  into a \<open>StorageError\<close> with the original message. It always rethrows.
\<close>

fun errorHandler :: "error \<Rightarrow> error" where
  "errorHandler (Raw (ValidationFailure m)) = BadRequest m"
| "errorHandler (Raw (EngineFailure m)) = StorageError m"
| "errorHandler e = e"

section \<open>Promises\<close>

text \<open>
  An asynchronous step runs against the storage engine's state and either rejects with an
  error or resolves with a value. The steps of a promise chain run one after the other.
\<close>

type_synonym ('s, 'a) promise = "'s \<Rightarrow> (error + 'a) \<times> 's"

definition resolve :: "'a \<Rightarrow> ('s, 'a) promise" where
  "resolve x s = (Inr x, s)"

definition reject :: "error \<Rightarrow> ('s, 'a) promise" where
  "reject e s = (Inl e, s)"

text \<open>\<^verbatim>\<open>p.then(f)\<close>\<close>

definition then_do :: "('s, 'a) promise \<Rightarrow> ('a \<Rightarrow> ('s, 'b) promise) \<Rightarrow> ('s, 'b) promise" where
  "then_do p f s = (case p s of (Inl e, s') \<Rightarrow> (Inl e, s') | (Inr x, s') \<Rightarrow> f x s')"

text \<open>\<^verbatim>\<open>p.catch(h)\<close> for a handler that rethrows what it computes.\<close>

definition catch_with :: "('s, 'a) promise \<Rightarrow> (error \<Rightarrow> error) \<Rightarrow> ('s, 'a) promise" where
  "catch_with p h s = (case p s of (Inl e, s') \<Rightarrow> (Inl (h e), s') | (Inr x, s') \<Rightarrow> (Inr x, s'))"

section \<open>The storage engine\<close>

text \<open>
  Modelled from the spec: the storage engine is an external collaborator, reached through
  the call surface \<^verbatim>\<open>findAndCount\<close>, \<^verbatim>\<open>findById\<close>, \<^verbatim>\<open>update\<close>, \<^verbatim>\<open>destroy\<close> and
  \<^verbatim>\<open>instance.update\<close>. It is modelled as one table in memory. The state also keeps the
  calls issued so far, oldest first, and a schedule of faults: each call is recorded,
  takes the head of the schedule and, when that is an error, fails with it and leaves the
  table alone. An empty schedule is an engine that does not fail. Rows have no fixed
  columns: an update sets the fields it is given.
\<close>

record model =
  m_pk :: string

datatype call =
    FindAndCount opts
  | FindById json opts
  | Update row opts
  | Destroy opts
  | InstanceUpdate row row opts

record engine =
  table :: "row list"
  calls :: "call list"
  faults :: "engine_error option list"

definition next_fault :: "engine \<Rightarrow> engine_error option" where
  "next_fault s = (case faults s of [] \<Rightarrow> None | f # fs \<Rightarrow> f)"

definition issue :: "call \<Rightarrow> engine \<Rightarrow> engine" where
  "issue c s = s\<lparr>calls := calls s @ [c], faults := tl (faults s)\<rparr>"

text \<open>Comparison of two values for the ordering operators and for sorting.\<close>

fun str_less :: "string \<Rightarrow> string \<Rightarrow> bool" where
  "str_less [] [] = False"
| "str_less [] (y # ys) = True"
| "str_less (x # xs) [] = False"
| "str_less (x # xs) (y # ys) =
     ((of_char x :: nat) < of_char y \<or> ((of_char x :: nat) = of_char y \<and> str_less xs ys))"

fun json_less :: "json \<Rightarrow> json \<Rightarrow> bool" where
  "json_less (JNum a) (JNum b) = (a < b)"
| "json_less (JStr a) (JStr b) = str_less a b"
| "json_less _ _ = False"

fun op_holds :: "operator \<Rightarrow> json \<Rightarrow> json \<Rightarrow> bool" where
  "op_holds Ne x v = (x \<noteq> v)"
| "op_holds Gt x v = json_less v x"
| "op_holds Gte x v = (json_less v x \<or> x = v)"
| "op_holds Lt x v = json_less x v"
| "op_holds Lte x v = (json_less x v \<or> x = v)"
| "op_holds In x (JArr vs) = (x \<in> set vs)"
| "op_holds In x _ = False"
| "op_holds Nin x (JArr vs) = (x \<notin> set vs)"
| "op_holds Nin x _ = False"

fun cond_holds :: "cond \<Rightarrow> json \<Rightarrow> bool" where
  "cond_holds (Equals v) x = (x = v)"
| "cond_holds (Ops os) x = list_all (\<lambda>p. op_holds (fst p) x (snd p)) os"

text \<open>A where clause is the conjunction of its field predicates.\<close>

definition matches :: "predicates \<Rightarrow> row \<Rightarrow> bool" where
  "matches w r = list_all (\<lambda>p. cond_holds (snd p) (get_field r (fst p))) w"

definition where_of :: "opts \<Rightarrow> predicates" where
  "where_of q = (case o_where q of None \<Rightarrow> [] | Some w \<Rightarrow> w)"

fun before :: "(string \<times> direction) list \<Rightarrow> row \<Rightarrow> row \<Rightarrow> bool" where
  "before [] a b = False"
| "before ((f, d) # os) a b =
     (let x = get_field a f; y = get_field b f;
          lt = (\<lambda>u v. case d of ASC \<Rightarrow> json_less u v | DESC \<Rightarrow> json_less v u)
      in if lt x y then True else if lt y x then False else before os a b)"

fun insert_row :: "(string \<times> direction) list \<Rightarrow> row \<Rightarrow> row list \<Rightarrow> row list" where
  "insert_row ord x [] = [x]"
| "insert_row ord x (y # ys) =
     (if before ord y x then y # insert_row ord x ys else x # y # ys)"

text \<open>A stable sort by the order clause; no order clause keeps the table's order.\<close>

definition order_rows :: "(string \<times> direction) list option \<Rightarrow> row list \<Rightarrow> row list" where
  "order_rows ord rs = (case ord of None \<Rightarrow> rs | Some os \<Rightarrow> foldr (insert_row os) rs [])"

definition window :: "nat option \<Rightarrow> nat option \<Rightarrow> row list \<Rightarrow> row list" where
  "window lim off rs =
     (let rest = (case off of None \<Rightarrow> rs | Some n \<Rightarrow> drop n rs)
      in case lim of None \<Rightarrow> rest | Some n \<Rightarrow> take n rest)"

definition project :: "string list option \<Rightarrow> row \<Rightarrow> row" where
  "project attrs r = (case attrs of None \<Rightarrow> r | Some ks \<Rightarrow> pick ks r)"

text \<open>The rows a query selects: filtered, ordered, cut to the window, projected.\<close>

definition select_rows :: "opts \<Rightarrow> row list \<Rightarrow> row list" where
  "select_rows q rs =
     map (project (o_attributes q))
       (window (o_limit q) (o_offset q) (order_rows (o_order q) (filter (matches (where_of q)) rs)))"

text \<open>\<^verbatim>\<open>Model.findAndCount(q)\<close>: the count ignores limit and offset.\<close>

definition Model_findAndCount :: "model \<Rightarrow> opts \<Rightarrow> (engine, nat \<times> row list) promise" where
  "Model_findAndCount m q s =
     (case next_fault s of
        Some e \<Rightarrow> (Inl (Raw e), issue (FindAndCount q) s)
      | None \<Rightarrow>
          (Inr (length (filter (matches (where_of q)) (table s)), select_rows q (table s)),
           issue (FindAndCount q) s))"

definition find_row :: "string \<Rightarrow> json \<Rightarrow> row list \<Rightarrow> row option" where
  "find_row pk i rs = List.find (\<lambda>r. map_of r pk = Some i) rs"

text \<open>
  \<^verbatim>\<open>Model.findById(id, options)\<close>: the record whose primary key is the id, or nothing
  (\<^verbatim>\<open>null\<close>). Of the options, the attribute list is applied.
\<close>

definition Model_findById :: "model \<Rightarrow> json \<Rightarrow> opts \<Rightarrow> (engine, row option) promise" where
  "Model_findById m i q s =
     (case next_fault s of
        Some e \<Rightarrow> (Inl (Raw e), issue (FindById i q) s)
      | None \<Rightarrow>
          (Inr (map_option (project (o_attributes q)) (find_row (m_pk m) i (table s))),
           issue (FindById i q) s))"

text \<open>\<^verbatim>\<open>Model.update(values, {where})\<close>: sets the values on every matching record.\<close>

definition Model_update :: "model \<Rightarrow> row \<Rightarrow> opts \<Rightarrow> (engine, nat) promise" where
  "Model_update m vals q s =
     (case next_fault s of
        Some e \<Rightarrow> (Inl (Raw e), issue (Update vals q) s)
      | None \<Rightarrow>
          (Inr (length (filter (matches (where_of q)) (table s))),
           (issue (Update vals q) s)
             \<lparr>table := map (\<lambda>r. if matches (where_of q) r then assign r vals else r) (table s)\<rparr>))"

text \<open>\<^verbatim>\<open>Model.destroy({where})\<close>: deletes every matching record.\<close>

definition Model_destroy :: "model \<Rightarrow> opts \<Rightarrow> (engine, nat) promise" where
  "Model_destroy m q s =
     (case next_fault s of
        Some e \<Rightarrow> (Inl (Raw e), issue (Destroy q) s)
      | None \<Rightarrow>
          (Inr (length (filter (matches (where_of q)) (table s))),
           (issue (Destroy q) s)
             \<lparr>table := filter (\<lambda>r. \<not> matches (where_of q) r) (table s)\<rparr>))"

text \<open>
  \<^verbatim>\<open>instance.update(values, options)\<close>: sets the values on the instance and on the
  record it was read from, and resolves with the instance. The primary key of an existing
  record is kept.
\<close>

definition set_values :: "string \<Rightarrow> row \<Rightarrow> row \<Rightarrow> row" where
  "set_values pk r vals = assign r (omit vals pk)"

definition instance_update :: "model \<Rightarrow> row \<Rightarrow> row \<Rightarrow> opts \<Rightarrow> (engine, row) promise" where
  "instance_update m inst vals q s =
     (case next_fault s of
        Some e \<Rightarrow> (Inl (Raw e), issue (InstanceUpdate inst vals q) s)
      | None \<Rightarrow>
          (Inr (set_values (m_pk m) inst vals),
           (issue (InstanceUpdate inst vals q) s)
             \<lparr>table := map (\<lambda>r. if map_of r (m_pk m) = map_of inst (m_pk m)
                                  then set_values (m_pk m) r vals else r) (table s)\<rparr>))"

text \<open>\<^verbatim>\<open>instance.toJSON()\<close>: the instance as a plain object.\<close>

definition toJSON :: "row \<Rightarrow> row" where
  "toJSON inst = inst"

section \<open>Filter parsing, translation and projection\<close>

record filters =
  f_sort :: "(string \<times> int) list option"
  f_limit :: "nat option"
  f_skip :: nat
  f_select :: "string list option"

text \<open>
  Modelled from the spec: \<^verbatim>\<open>filter(query, paginate)\<close> comes from the package
  feathers-query-filters. It splits the raw query into the directives and the field
  predicates. With pagination disabled the requested limit passes through as it is;
  with pagination enabled the limit is the requested one, or the default when none was
  requested, capped by the maximum. A default of \<open>0\<close> counts as no default, as it does
  in \<^verbatim>\<open>find\<close>. The skip is \<open>0\<close> when absent or negative. A selection list, when
  present, includes the identifier field even if the caller left it out. The source
  hands the parser the query and the pagination only; the identifier field is the one of
  the service, and the model passes it to the parser as its first argument.
\<close>

definition include_id :: "string \<Rightarrow> string list \<Rightarrow> string list" where
  "include_id idf fs = (if idf \<in> set fs then fs else fs @ [idf])"

definition getLimit :: "nat option \<Rightarrow> paginate option \<Rightarrow> nat option" where
  "getLimit limit pg =
     (case pg of
        None \<Rightarrow> limit
      | Some p \<Rightarrow>
          (case pg_default p of
             None \<Rightarrow> limit
           | Some d \<Rightarrow>
               if d = 0 then limit
               else (let lower = (case limit of Some n \<Rightarrow> n | None \<Rightarrow> d)
                     in Some (case pg_max p of Some upper \<Rightarrow> min lower upper | None \<Rightarrow> lower))))"

definition filter_query :: "string \<Rightarrow> query \<Rightarrow> paginate option \<Rightarrow> filters \<times> predicates" where
  "filter_query idf q pg =
     (\<lparr>f_sort = q_sort q,
       f_limit = getLimit (q_limit q) pg,
       f_skip = (case q_skip q of None \<Rightarrow> 0 | Some n \<Rightarrow> if n < 0 then 0 else nat n),
       f_select = map_option (include_id idf) (q_select q)\<rparr>,
      q_fields q)"

text \<open>
  Modelled from the spec: \<^verbatim>\<open>utils.getWhere\<close> and \<^verbatim>\<open>utils.getOrder\<close> are not part of
  the given source. The Predicate Translator is a purely syntactic conversion that keeps
  the meaning of every operator, the order of the sort fields and the direction, \<open>1\<close>
  being ascending. The engine above reads field predicates as they are, so the where
  clause is the predicate list itself.
\<close>

definition getWhere :: "predicates \<Rightarrow> predicates" where
  "getWhere query = query"

definition getOrder :: "(string \<times> int) list option \<Rightarrow> (string \<times> direction) list" where
  "getOrder srt =
     (case srt of
        None \<Rightarrow> []
      | Some fs \<Rightarrow> map (\<lambda>p. (fst p, if snd p = 1 then ASC else DESC)) fs)"

text \<open>
  Modelled from the spec: \<^verbatim>\<open>select(params, idField)\<close> comes from the package
  feathers-commons. Without a selection list the record is returned unchanged; with one,
  the result holds only those fields plus the identifier field. A sequence of records is
  projected record by record.
\<close>

definition select_fields :: "params \<Rightarrow> string list option" where
  "select_fields ps = (case p_query ps of None \<Rightarrow> None | Some q \<Rightarrow> q_select q)"

definition select :: "params \<Rightarrow> string \<Rightarrow> row \<Rightarrow> row" where
  "select ps idf r =
     (case select_fields ps of None \<Rightarrow> r | Some fs \<Rightarrow> pick (fs @ [idf]) r)"

fun select_result :: "params \<Rightarrow> string \<Rightarrow> result \<Rightarrow> result" where
  "select_result ps idf (One r) = One (select ps idf r)"
| "select_result ps idf (Many rs) = Many (map (select ps idf) rs)"

section \<open>The service\<close>

record options =
  opt_Model :: "model option"
  opt_id :: "string option"
  opt_paginate :: "paginate option"
  opt_events :: "string list option"

record service =
  svc_paginate :: paginate
  svc_Model :: model
  svc_id :: string
  svc_events :: "string list option"

text \<open>
  The constructor. \<^verbatim>\<open>options.id || 'id'\<close> takes the default for an absent name and for
  the empty string, both being falsy.
\<close>

definition Service_constructor :: "options option \<Rightarrow> error + service" where
  "Service_constructor options =
     (case options of
        None \<Rightarrow> Inl (ConfigurationError ''Sequelize options have to be provided'')
      | Some os \<Rightarrow>
          (case opt_Model os of
             None \<Rightarrow> Inl (ConfigurationError ''You must provide a Sequelize Model'')
           | Some m \<Rightarrow>
               Inr \<lparr>svc_paginate = (case opt_paginate os of
                                      None \<Rightarrow> \<lparr>pg_default = None, pg_max = None\<rparr>
                                    | Some p \<Rightarrow> p),
                    svc_Model = m,
                    svc_id = (case opt_id os of
                                None \<Rightarrow> ''id''
                              | Some n \<Rightarrow> if n = [] then ''id'' else n),
                    svc_events = opt_events os\<rparr>))"

definition query_of :: "params \<Rightarrow> query" where
  "query_of ps = (case p_query ps of None \<Rightarrow> empty_query | Some q \<Rightarrow> q)"

text \<open>The options object \<open>q\<close> that \<^verbatim>\<open>_find\<close> hands to \<^verbatim>\<open>findAndCount\<close>.\<close>

definition find_options :: "params \<Rightarrow> filters \<Rightarrow> predicates \<Rightarrow> opts" where
  "find_options ps filters query =
     (let wh = getWhere query;
          order = getOrder (f_sort filters);
          q = assign_opts
                \<lparr>o_where = Some wh, o_order = Some order, o_limit = f_limit filters,
                 o_offset = Some (f_skip filters), o_attributes = None\<rparr>
                (p_sequelize ps)
      in case f_select filters of
           None \<Rightarrow> q
         | Some fs \<Rightarrow> q\<lparr>o_attributes := Some fs\<rparr>)"

text \<open>\<^verbatim>\<open>_find(params, getFilter = filter)\<close>\<close>

definition Service__find ::
  "service \<Rightarrow> params \<Rightarrow> (query \<Rightarrow> filters \<times> predicates) \<Rightarrow> (engine, page) promise" where
  "Service__find this ps getFilter =
     (let (filters, query) = getFilter (query_of ps);
          q = find_options ps filters query
      in catch_with
           (then_do (Model_findAndCount (svc_Model this) q)
              (\<lambda>result. resolve
                 \<lparr>page_total = fst result, page_limit = f_limit filters,
                  page_skip = f_skip filters, page_data = snd result\<rparr>))
           errorHandler)"

text \<open>\<^verbatim>\<open>filter\<close> as \<^verbatim>\<open>_find\<close>, patch and remove call it: without pagination.\<close>

definition default_filter :: "string \<Rightarrow> query \<Rightarrow> filters \<times> predicates" where
  "default_filter idf q = filter_query idf q None"

text \<open>\<^verbatim>\<open>find(params)\<close>\<close>

definition Service_find :: "service \<Rightarrow> params \<Rightarrow> (engine, found) promise" where
  "Service_find this ps =
     (let paginate = (case p_paginate ps of Some p \<Rightarrow> p | None \<Rightarrow> svc_paginate this);
          result = Service__find this ps (\<lambda>wh. filter_query (svc_id this) wh (Some paginate))
      in if \<not> truthy (pg_default paginate)
         then then_do result (\<lambda>page. resolve (Data (page_data page)))
         else then_do result (\<lambda>page. resolve (Page page)))"

text \<open>\<^verbatim>\<open>_get(id, params)\<close>\<close>

definition Service__get :: "service \<Rightarrow> json \<Rightarrow> params \<Rightarrow> (engine, row) promise" where
  "Service__get this i ps =
     catch_with
       (then_do
          (then_do (Model_findById (svc_Model this) i (p_sequelize ps))
             (\<lambda>instance. case instance of
                            None \<Rightarrow> reject (NotFound i)
                          | Some inst \<Rightarrow> resolve inst))
          (\<lambda>inst. resolve (select ps (svc_id this) (toJSON inst))))
       errorHandler"

text \<open>
  \<^verbatim>\<open>_getOrFind(id, params)\<close>: the record for an id, or all unpaginated records for the
  params when the id is \<^verbatim>\<open>null\<close>.
\<close>

definition Service__getOrFind :: "service \<Rightarrow> json \<Rightarrow> params \<Rightarrow> (engine, result) promise" where
  "Service__getOrFind this i ps =
     (if i = JNull
      then then_do (Service__find this ps (default_filter (svc_id this))) (\<lambda>page. resolve (Many (page_data page)))
      else then_do (Service__get this i ps) (\<lambda>r. resolve (One r)))"

text \<open>\<^verbatim>\<open>get(id, params)\<close>\<close>

definition Service_get :: "service \<Rightarrow> json \<Rightarrow> params \<Rightarrow> (engine, row) promise" where
  "Service_get this i ps =
     then_do (Service__get this i ps) (\<lambda>r. resolve (select ps (svc_id this) r))"

text \<open>The options \<^verbatim>\<open>Object.assign({}, params.sequelize, { where })\<close> of patch and remove.\<close>

definition where_options :: "params \<Rightarrow> predicates \<Rightarrow> opts" where
  "where_options ps wh =
     assign_opts (assign_opts no_opts (p_sequelize ps)) (no_opts\<lparr>o_where := Some wh\<rparr>)"

text \<open>
  The where clause of patch and remove: the field predicates of the caller's query, with
  the identifier field set to the id when the id is not \<^verbatim>\<open>null\<close>.
\<close>

definition where_clause :: "service \<Rightarrow> json \<Rightarrow> params \<Rightarrow> predicates" where
  "where_clause this i ps =
     (let wh = snd (default_filter (svc_id this) (query_of ps))
      in if i \<noteq> JNull then set_field (svc_id this) (Equals i) wh else wh)"

text \<open>The query \<^verbatim>\<open>{ [this.id]: { $in: idList } }\<close>.\<close>

definition id_in_query :: "string \<Rightarrow> json list \<Rightarrow> query" where
  "id_in_query idf idList = empty_query\<lparr>q_fields := [(idf, Ops [(In, JArr idList)])]\<rparr>"

text \<open>
  \<^verbatim>\<open>findParams\<close> of patch: the params with the query replaced by the one that asks for
  the listed ids.
\<close>

definition findParams :: "service \<Rightarrow> params \<Rightarrow> json list \<Rightarrow> params" where
  "findParams this ps idList = ps\<lparr>p_query := Some (id_in_query (svc_id this) idList)\<rparr>"

text \<open>\<^verbatim>\<open>mapIds\<close> of patch: the identifier values of a page's records.\<close>

definition mapIds :: "service \<Rightarrow> page \<Rightarrow> json list" where
  "mapIds this page = map (\<lambda>current. get_field current (svc_id this)) (page_data page)"

text \<open>\<^verbatim>\<open>patch(id, data, params)\<close>\<close>

definition Service_patch :: "service \<Rightarrow> json \<Rightarrow> row \<Rightarrow> params \<Rightarrow> (engine, result) promise" where
  "Service_patch this i data ps =
     (let ids = (if i = JNull
                 then then_do (Service__find this ps (default_filter (svc_id this)))
                        (\<lambda>page. resolve (mapIds this page))
                 else resolve [i]);
          options = where_options ps (where_clause this i ps)
      in catch_with
           (then_do
              (then_do ids
                 (\<lambda>idList.
                    then_do (Model_update (svc_Model this) (omit data (svc_id this)) options)
                      (\<lambda>_. Service__getOrFind this i (findParams this ps idList))))
              (\<lambda>r. resolve (select_result ps (svc_id this) r)))
           errorHandler)"

text \<open>The replacement payload that \<^verbatim>\<open>update\<close> builds over the keys of the stored record.\<close>

definition replacement :: "row \<Rightarrow> row \<Rightarrow> row" where
  "replacement inst data =
     foldl (\<lambda>copy key.
              if get_field data key = JUndefined
              then set_field key JNull copy
              else set_field key (get_field data key) copy)
       [] (keys (toJSON inst))"

text \<open>\<^verbatim>\<open>update(id, data, params)\<close>\<close>

definition Service_update :: "service \<Rightarrow> json \<Rightarrow> payload \<Rightarrow> params \<Rightarrow> (engine, row) promise" where
  "Service_update this i data ps =
     (let options = assign_opts no_opts (p_sequelize ps)
      in case data of
           PArr _ \<Rightarrow> reject (InvalidOperation ''Not replacing multiple records. Did you mean `patch`?'')
         | PObj d \<Rightarrow>
             catch_with
               (then_do
                  (then_do (Model_findById (svc_Model this) i no_opts)
                     (\<lambda>instance. case instance of
                                    None \<Rightarrow> reject (NotFound i)
                                  | Some inst \<Rightarrow>
                                      instance_update (svc_Model this) inst (replacement inst d) options))
                  (\<lambda>r. resolve (select ps (svc_id this) (toJSON r))))
               errorHandler)"

text \<open>\<^verbatim>\<open>remove(id, params)\<close>\<close>

definition Service_remove :: "service \<Rightarrow> json \<Rightarrow> params \<Rightarrow> (engine, result) promise" where
  "Service_remove this i ps =
     catch_with
       (then_do
          (then_do (Service__getOrFind this i ps)
             (\<lambda>data.
                let options = where_options ps (where_clause this i ps)
                in then_do (Model_destroy (svc_Model this) options) (\<lambda>_. resolve data)))
          (\<lambda>r. resolve (select_result ps (svc_id this) r)))
       errorHandler"

section \<open>Notions used in the statements\<close>

text \<open>The options object of the \<^verbatim>\<open>findAndCount\<close> call that \<^verbatim>\<open>_find\<close> issues.\<close>

definition find_call :: "params \<Rightarrow> (query \<Rightarrow> filters \<times> predicates) \<Rightarrow> opts" where
  "find_call ps gf = find_options ps (fst (gf (query_of ps))) (snd (gf (query_of ps)))"

text \<open>The \<^verbatim>\<open>Model.update\<close> call of patch and the \<^verbatim>\<open>Model.destroy\<close> call of remove.\<close>

definition update_call :: "service \<Rightarrow> json \<Rightarrow> row \<Rightarrow> params \<Rightarrow> call" where
  "update_call this i data ps =
     Update (omit data (svc_id this)) (where_options ps (where_clause this i ps))"

definition destroy_call :: "service \<Rightarrow> json \<Rightarrow> params \<Rightarrow> call" where
  "destroy_call this i ps = Destroy (where_options ps (where_clause this i ps))"

text \<open>The table after the update of a patch has gone through.\<close>

definition patched :: "service \<Rightarrow> json \<Rightarrow> row \<Rightarrow> params \<Rightarrow> row list \<Rightarrow> row list" where
  "patched this i data ps rs =
     map (\<lambda>r. if matches (where_clause this i ps) r then assign r (omit data (svc_id this)) else r) rs"

text \<open>The records whose identifier is one of the listed ids.\<close>

definition with_ids :: "string \<Rightarrow> json list \<Rightarrow> row list \<Rightarrow> row list" where
  "with_ids idf ids rs = filter (\<lambda>r. get_field r idf \<in> set ids) rs"

text \<open>The caller's value for a field when the data provides one, and \<^verbatim>\<open>null\<close> otherwise.\<close>

definition provided :: "row \<Rightarrow> string \<Rightarrow> json" where
  "provided data k = (if get_field data k = JUndefined then JNull else get_field data k)"

text \<open>The pagination configuration in effect for a call of \<^verbatim>\<open>find\<close>.\<close>

definition effective_paginate :: "service \<Rightarrow> params \<Rightarrow> paginate" where
  "effective_paginate this ps = (case p_paginate ps of Some p \<Rightarrow> p | None \<Rightarrow> svc_paginate this)"

section \<open>Example data\<close>

definition ex_service :: service where
  "ex_service = \<lparr>svc_paginate = \<lparr>pg_default = None, pg_max = None\<rparr>,
     svc_Model = \<lparr>m_pk = ''id''\<rparr>, svc_id = ''id'', svc_events = None\<rparr>"

definition ex_engine :: engine where
  "ex_engine = \<lparr>table =
       [[(''id'', JNum 1), (''status'', JStr ''y'')],
        [(''id'', JNum 2), (''status'', JStr ''y'')],
        [(''id'', JNum 3), (''status'', JStr ''z'')]],
     calls = [], faults = []\<rparr>"

text \<open>No query, the query \<^verbatim>\<open>{status: 'y'}\<close>, and the query \<^verbatim>\<open>{id: 5}\<close>.\<close>

definition ex_no_params :: params where
  "ex_no_params = \<lparr>p_query = None, p_paginate = None, p_sequelize = no_opts\<rparr>"

definition ex_params :: params where
  "ex_params = ex_no_params
     \<lparr>p_query := Some (empty_query\<lparr>q_fields := [(''status'', Equals (JStr ''y''))]\<rparr>)\<rparr>"

definition ex_params_id5 :: params where
  "ex_params_id5 = ex_no_params
     \<lparr>p_query := Some (empty_query\<lparr>q_fields := [(''id'', Equals (JNum 5))]\<rparr>)\<rparr>"

text \<open>The query \<^verbatim>\<open>{status: 'y'}\<close> with the passthrough options \<^verbatim>\<open>{offset: 1}\<close>.\<close>

definition ex_params_offset :: params where
  "ex_params_offset = ex_params\<lparr>p_sequelize := no_opts\<lparr>o_offset := Some 1\<rparr>\<rparr>"

text \<open>The query \<^verbatim>\<open>{status: 'y', $select: ['status']}\<close>.\<close>

definition ex_params_select :: params where
  "ex_params_select = ex_no_params
     \<lparr>p_query := Some (empty_query\<lparr>q_select := Some [''status''],
                        q_fields := [(''status'', Equals (JStr ''y''))]\<rparr>)\<rparr>"

text \<open>The data \<^verbatim>\<open>{status: 'x'}\<close>.\<close>

definition ex_data :: row where
  "ex_data = [(''status'', JStr ''x'')]"

text \<open>A service whose pagination configuration has the default page size \<open>0\<close>, and one with 2.\<close>

definition ex_service_zero :: service where
  "ex_service_zero = ex_service\<lparr>svc_paginate := \<lparr>pg_default = Some 0, pg_max = None\<rparr>\<rparr>"

definition ex_service_paged :: service where
  "ex_service_paged = ex_service\<lparr>svc_paginate := \<lparr>pg_default = Some 2, pg_max = None\<rparr>\<rparr>"

text \<open>A table with one record of the fields \<open>a\<close>, \<open>b\<close> and \<open>c\<close>, and the data \<^verbatim>\<open>{a: 1}\<close>.\<close>

definition ex_abc_row :: row where
  "ex_abc_row = [(''id'', JNum 7), (''a'', JNum 0), (''b'', JNum 5), (''c'', JNum 6)]"

definition ex_abc :: engine where
  "ex_abc = \<lparr>table = [ex_abc_row], calls = [], faults = []\<rparr>"

definition ex_a1 :: row where
  "ex_a1 = [(''a'', JNum 1)]"

text \<open>The data \<^verbatim>\<open>{id: 9, status: 'x'}\<close> and \<^verbatim>\<open>{a: 1, d: 4}\<close>.\<close>

definition ex_data_id :: row where
  "ex_data_id = [(''id'', JNum 9), (''status'', JStr ''x'')]"

definition ex_a1_d4 :: row where
  "ex_a1_d4 = [(''a'', JNum 1), (''d'', JNum 4)]"

definition ex_options :: options where
  "ex_options = \<lparr>opt_Model = Some \<lparr>m_pk = ''id''\<rparr>, opt_id = None, opt_paginate = None,
     opt_events = None\<rparr>"

section \<open>Records as association lists\<close>

lemma map_of_set_field: "map_of (set_field k v r) = (map_of r)(k \<mapsto> v)"
  by (induction r) (auto simp: fun_eq_iff)

lemma get_field_set_field:
  "get_field (set_field k v r) k' = (if k' = k then v else get_field r k')"
  by (simp add: get_field_def map_of_set_field)

lemma keys_set_field: "set (keys (set_field k v r)) = insert k (set (keys r))"
  by (induction r) (auto simp: keys_def)

lemma fst_set_field: "fst ` set (set_field k v r) = insert k (fst ` set r)"
  by (induction r) auto

lemma distinct_set_field: "distinct (keys r) \<Longrightarrow> distinct (keys (set_field k v r))"
  by (induction r) (auto simp: keys_def fst_set_field)

lemma map_of_assign_other:
  "k \<notin> set (keys vals) \<Longrightarrow> map_of (assign r vals) k = map_of r k"
  by (induction vals arbitrary: r) (simp_all add: assign_def keys_def map_of_set_field)

lemma get_field_assign_other:
  "k \<notin> set (keys vals) \<Longrightarrow> get_field (assign r vals) k = get_field r k"
  by (simp add: get_field_def map_of_assign_other)

text \<open>With distinct keys, assigning an object sets each of its fields to the object's value.\<close>

lemma get_field_assign_distinct:
  "distinct (keys vals) \<Longrightarrow> k \<in> set (keys vals) \<Longrightarrow>
     get_field (assign r vals) k = get_field vals k"
proof (induction vals arbitrary: r rule: rev_induct)
  case Nil
  then show ?case by (simp add: keys_def)
next
  case (snoc p vals)
  from snoc.prems(1) have d: "distinct (keys vals)" and nin: "fst p \<notin> set (keys vals)"
    by (auto simp: keys_def)
  show ?case
  proof (cases "k = fst p")
    case True
    with nin have "map_of vals k = None" by (simp add: keys_def map_of_eq_None_iff)
    then have "get_field (vals @ [p]) k = snd p"
      using True by (simp add: get_field_def map_add_def)
    with True show ?thesis
      by (simp add: assign_def get_field_set_field)
  next
    case False
    with snoc.prems(2) have kin: "k \<in> set (keys vals)" by (auto simp: keys_def)
    then have "map_of vals k \<noteq> None" by (simp add: keys_def map_of_eq_None_iff)
    then have "get_field (vals @ [p]) k = get_field vals k"
      by (auto simp: get_field_def map_add_def split: option.splits)
    with snoc.IH[OF d kin, of r] False show ?thesis
      by (simp add: assign_def get_field_set_field)
  qed
qed

lemma keys_omit: "k \<notin> set (keys (omit d k))"
  by (auto simp: keys_def omit_def)

lemma keys_omit_subset: "k' \<notin> set (keys d) \<Longrightarrow> k' \<notin> set (keys (omit d k))"
  by (auto simp: keys_def omit_def)

lemma keys_omit_iff: "set (keys (omit r k')) = set (keys r) - {k'}"
  by (auto simp: keys_def omit_def)

lemma distinct_omit: "distinct (keys r) \<Longrightarrow> distinct (keys (omit r k))"
  by (simp add: keys_def omit_def distinct_map_filter)

lemma get_field_omit: "k \<noteq> k' \<Longrightarrow> get_field (omit r k') k = get_field r k"
  by (induction r) (auto simp: get_field_def omit_def)

lemma set_omit_set_field: "set (omit F k) \<subseteq> set (set_field k c F)"
  by (induction F) (auto simp: omit_def)

lemma pick_pick: "set ks \<subseteq> set ks' \<Longrightarrow> pick ks' (pick ks r) = pick ks r"
  by (auto simp: pick_def intro: filter_cong)

lemma pick_append_pick [simp]: "pick (ks @ ks') (pick ks r) = pick ks r"
  by (simp add: pick_pick)

lemma pick_include_id [simp]:
  "pick (fs @ [idf]) (pick (include_id idf fs) r) = pick (include_id idf fs) r"
  by (rule pick_pick) (auto simp: include_id_def)

lemma pick_idem [simp]: "pick ks (pick ks r) = pick ks r"
  by (simp add: pick_pick)

lemma project_None [simp]: "project None r = r"
  by (simp add: project_def)

lemma find_map:
  "(\<And>x. P (f x) = P x) \<Longrightarrow> List.find P (map f xs) = map_option f (List.find P xs)"
  by (induction xs) auto


section \<open>The replacement payload\<close>

lemma get_field_replacement_step:
  "get_field
     (foldl (\<lambda>copy key. if get_field d key = JUndefined then set_field key JNull copy
                         else set_field key (get_field d key) copy) acc ks) k
   = (if k \<in> set ks then provided d k else get_field acc k)"
  by (induction ks rule: rev_induct) (auto simp: get_field_set_field provided_def)

lemma keys_replacement_step:
  "set (keys
     (foldl (\<lambda>copy key. if get_field d key = JUndefined then set_field key JNull copy
                         else set_field key (get_field d key) copy) acc ks))
   = set (keys acc) \<union> set ks"
  by (induction ks rule: rev_induct) (auto simp: keys_set_field)

lemma distinct_replacement_step:
  "distinct (keys acc) \<Longrightarrow> distinct (keys
     (foldl (\<lambda>copy key. if get_field d key = JUndefined then set_field key JNull copy
                         else set_field key (get_field d key) copy) acc ks))"
  by (induction ks rule: rev_induct) (auto simp: distinct_set_field)

lemma get_field_replacement:
  "k \<in> set (keys inst) \<Longrightarrow> get_field (replacement inst d) k = provided d k"
  by (simp add: replacement_def toJSON_def get_field_replacement_step)

lemma keys_replacement: "set (keys (replacement inst d)) = set (keys inst)"
  by (simp add: replacement_def toJSON_def keys_replacement_step) (simp add: keys_def)

lemma distinct_replacement: "distinct (keys (replacement inst d))"
  unfolding replacement_def by (rule distinct_replacement_step) (simp add: keys_def)

lemma get_field_set_values:
  assumes "k \<in> set (keys inst)" "k \<noteq> pk"
  shows "get_field (set_values pk inst (replacement inst d)) k = provided d k"
proof -
  have "k \<in> set (keys (omit (replacement inst d) pk))"
    using assms by (simp add: keys_omit_iff keys_replacement)
  then have "get_field (set_values pk inst (replacement inst d)) k
               = get_field (omit (replacement inst d) pk) k"
    unfolding set_values_def
    by (intro get_field_assign_distinct distinct_omit distinct_replacement)
  also have "\<dots> = provided d k"
    using assms by (simp add: get_field_omit get_field_replacement)
  finally show ?thesis .
qed

section \<open>Where clauses and projection\<close>

lemma matches_id_in [simp]:
  "matches [(idf, Ops [(In, JArr ids)])] = (\<lambda>r. get_field r idf \<in> set ids)"
  by (simp add: matches_def fun_eq_iff)

lemma matches_set_field:
  "matches (set_field k c F) r \<Longrightarrow> matches (omit F k) r"
  using set_omit_set_field[of F k c] by (auto simp: matches_def list_all_iff)

lemma where_of_where_options [simp]: "where_of (where_options ps w) = w"
  by (simp add: where_options_def where_of_def assign_opts_def over_def no_opts_def)

lemma where_clause_id:
  "i \<noteq> JNull \<Longrightarrow>
     where_clause this i ps = set_field (svc_id this) (Equals i) (q_fields (query_of ps))"
  by (simp add: where_clause_def default_filter_def filter_query_def)

lemma window_all [simp]: "window None (Some 0) rs = rs"
  by (simp add: window_def)

lemma select_None: "select_fields ps = None \<Longrightarrow> select ps idf = (\<lambda>r. r)"
  by (simp add: fun_eq_iff select_def)

lemma select_Some: "select_fields ps = Some fs \<Longrightarrow> select ps idf = pick (fs @ [idf])"
  by (simp add: fun_eq_iff select_def)

lemma select_select [simp]: "select ps idf (select ps idf r) = select ps idf r"
  by (simp add: select_def pick_pick split: option.splits)

lemma attributes_find_options:
  "o_attributes (find_options ps fl q) =
     (case f_select fl of None \<Rightarrow> o_attributes (p_sequelize ps) | Some fs \<Rightarrow> Some fs)"
  by (simp add: find_options_def Let_def assign_opts_def over_def split: option.splits)

lemma f_select_default_filter:
  "f_select (fst (default_filter idf (query_of ps))) = map_option (include_id idf) (select_fields ps)"
  by (simp add: default_filter_def filter_query_def query_of_def select_fields_def empty_query_def
        split: option.splits)

lemma attributes_find_call:
  "select_fields ps = Some fs \<Longrightarrow> o_attributes (find_call ps (default_filter idf)) = Some (include_id idf fs)"
  by (simp add: find_call_def attributes_find_options f_select_default_filter)

text \<open>
  The rows of an unpaginated find are already cut to the selection list, so projecting them
  again changes nothing.
\<close>

lemma select_select_rows [simp]:
  "map (select ps idf) (select_rows (find_call ps (default_filter idf)) rs)
     = select_rows (find_call ps (default_filter idf)) rs"
proof (cases "select_fields ps")
  case None
  then show ?thesis by (simp add: select_None)
next
  case (Some fs)
  then show ?thesis
    by (simp add: select_rows_def attributes_find_call select_Some project_def pick_pick)
qed

lemma select_fields_findParams [simp]: "select_fields (findParams this ps ids) = None"
  by (simp add: select_fields_def findParams_def id_in_query_def empty_query_def)

lemma sequelize_findParams [simp]: "p_sequelize (findParams this ps ids) = p_sequelize ps"
  by (simp add: findParams_def)

lemma find_call_findParams:
  "find_call (findParams this ps ids) (default_filter idf) =
     assign_opts
       \<lparr>o_where = Some [(svc_id this, Ops [(In, JArr ids)])], o_order = Some [],
        o_limit = None, o_offset = Some 0, o_attributes = None\<rparr>
       (p_sequelize ps)"
  by (simp add: find_call_def find_options_def default_filter_def filter_query_def query_of_def
        findParams_def id_in_query_def empty_query_def getWhere_def getOrder_def getLimit_def
        Let_def)

section \<open>The engine's state along a call\<close>

lemma issue_simps [simp]:
  "table (issue c s) = table s"
  "calls (issue c s) = calls s @ [c]"
  "faults (issue c s) = tl (faults s)"
  by (simp_all add: issue_def)

lemma next_fault_table [simp]: "next_fault (s\<lparr>table := t\<rparr>) = next_fault s"
  by (simp add: next_fault_def)

lemma faults_healthy [simp]: "faults s = [] \<Longrightarrow> next_fault s = None"
  by (simp add: next_fault_def)

lemma snd_case_result [simp]:
  "snd (case p of (Inl e, s') \<Rightarrow> (Inl (h e), s') | (Inr r, s') \<Rightarrow> (Inr (g r), s')) = snd p"
  by (simp split: prod.splits sum.splits)

lemma Model_update_eq:
  "Model_update m vals (where_options ps w) s =
     (case next_fault s of
        Some e \<Rightarrow> (Inl (Raw e), issue (Update vals (where_options ps w)) s)
      | None \<Rightarrow>
          (Inr (length (filter (matches w) (table s))),
           (issue (Update vals (where_options ps w)) s)
             \<lparr>table := map (\<lambda>r. if matches w r then assign r vals else r) (table s)\<rparr>))"
  by (simp add: Model_update_def split: option.splits)

lemma Model_destroy_eq:
  "Model_destroy m (where_options ps w) s =
     (case next_fault s of
        Some e \<Rightarrow> (Inl (Raw e), issue (Destroy (where_options ps w)) s)
      | None \<Rightarrow>
          (Inr (length (filter (matches w) (table s))),
           (issue (Destroy (where_options ps w)) s)
             \<lparr>table := filter (\<lambda>r. \<not> matches w r) (table s)\<rparr>))"
  by (simp add: Model_destroy_def split: option.splits)

section \<open>The methods, step by step\<close>

lemma Service__find_eq:
  "Service__find this ps gf s =
     (case next_fault s of
        Some e \<Rightarrow> (Inl (errorHandler (Raw e)), issue (FindAndCount (find_call ps gf)) s)
      | None \<Rightarrow>
          (Inr \<lparr>page_total = length (filter (matches (where_of (find_call ps gf))) (table s)),
                page_limit = f_limit (fst (gf (query_of ps))),
                page_skip = f_skip (fst (gf (query_of ps))),
                page_data = select_rows (find_call ps gf) (table s)\<rparr>,
           issue (FindAndCount (find_call ps gf)) s))"
  by (simp add: Service__find_def Model_findAndCount_def then_do_def catch_with_def resolve_def
        find_call_def Let_def split_beta split: option.splits)

lemma Service__get_eq:
  "Service__get this i ps s =
     (case next_fault s of
        Some e \<Rightarrow> (Inl (errorHandler (Raw e)), issue (FindById i (p_sequelize ps)) s)
      | None \<Rightarrow>
          (case find_row (m_pk (svc_Model this)) i (table s) of
             None \<Rightarrow> (Inl (NotFound i), issue (FindById i (p_sequelize ps)) s)
           | Some inst \<Rightarrow>
               (Inr (select ps (svc_id this) (project (o_attributes (p_sequelize ps)) inst)),
                issue (FindById i (p_sequelize ps)) s)))"
  by (simp add: Service__get_def Model_findById_def then_do_def catch_with_def resolve_def
        reject_def toJSON_def split: option.splits)

lemma Service__getOrFind_eq:
  "Service__getOrFind this i ps s =
     (if i = JNull
      then (case next_fault s of
              Some e \<Rightarrow> (Inl (errorHandler (Raw e)), issue (FindAndCount (find_call ps (default_filter (svc_id this)))) s)
            | None \<Rightarrow>
                (Inr (Many (select_rows (find_call ps (default_filter (svc_id this))) (table s))),
                 issue (FindAndCount (find_call ps (default_filter (svc_id this)))) s))
      else (case next_fault s of
              Some e \<Rightarrow> (Inl (errorHandler (Raw e)), issue (FindById i (p_sequelize ps)) s)
            | None \<Rightarrow>
                (case find_row (m_pk (svc_Model this)) i (table s) of
                   None \<Rightarrow> (Inl (NotFound i), issue (FindById i (p_sequelize ps)) s)
                 | Some inst \<Rightarrow>
                     (Inr (One (select ps (svc_id this) (project (o_attributes (p_sequelize ps)) inst))),
                      issue (FindById i (p_sequelize ps)) s))))"
  by (simp add: Service__getOrFind_def Service__find_eq Service__get_eq then_do_def resolve_def
        split: option.splits)

lemma table_getOrFind [simp]: "table (snd (Service__getOrFind this i ps s)) = table s"
  by (simp add: Service__getOrFind_eq split: option.splits)

lemma calls_getOrFind:
  "\<exists>c. calls (snd (Service__getOrFind this i ps s)) = calls s @ [c] \<and> (\<forall>vals q. c \<noteq> Update vals q)"
  by (simp add: Service__getOrFind_eq split: option.splits)

lemma getOrFind_selected:
  "Service__getOrFind this i ps s = (Inr d, s1) \<Longrightarrow> select_result ps (svc_id this) d = d"
  by (auto simp: Service__getOrFind_eq split: if_splits option.splits)

lemma Service_find_eq:
  "Service_find this ps s =
     (case Service__find this ps (\<lambda>wh. filter_query (svc_id this) wh (Some (effective_paginate this ps))) s of
        (Inl e, s') \<Rightarrow> (Inl e, s')
      | (Inr page, s') \<Rightarrow>
          (Inr (if truthy (pg_default (effective_paginate this ps))
                then Page page else Data (page_data page)), s'))"
  by (simp add: Service_find_def effective_paginate_def then_do_def resolve_def Let_def
        split: prod.splits sum.splits)

text \<open>
  Patch: the lookup of the ids when the id is \<^verbatim>\<open>null\<close>, then the update, then the re-fetch
  with \<^verbatim>\<open>findParams\<close>. A failure of the engine ends the chain where it happens.
\<close>

lemma Service_patch_eq:
  "Service_patch this i data ps s =
     (let s1 = (if i = JNull then issue (FindAndCount (find_call ps (default_filter (svc_id this)))) s else s);
          ids = (if i = JNull
                 then map (\<lambda>r. get_field r (svc_id this))
                        (select_rows (find_call ps (default_filter (svc_id this))) (table s))
                 else [i])
      in if i = JNull \<and> next_fault s \<noteq> None
         then (Inl (errorHandler (errorHandler (Raw (the (next_fault s))))), s1)
         else if next_fault s1 \<noteq> None
         then (Inl (errorHandler (Raw (the (next_fault s1)))), issue (update_call this i data ps) s1)
         else (case Service__getOrFind this i (findParams this ps ids)
                     ((issue (update_call this i data ps) s1)
                        \<lparr>table := patched this i data ps (table s)\<rparr>) of
                 (Inl e, s') \<Rightarrow> (Inl (errorHandler e), s')
               | (Inr r, s') \<Rightarrow> (Inr (select_result ps (svc_id this) r), s')))"
  by (simp add: Service_patch_def Service__find_eq Model_update_eq Service__getOrFind_eq
        mapIds_def patched_def update_call_def
        then_do_def catch_with_def resolve_def Let_def
        split: option.splits)

lemma patch_table:
  "table (snd (Service_patch this i data ps s)) = table s
   \<or> table (snd (Service_patch this i data ps s)) = patched this i data ps (table s)"
  by (simp add: Service_patch_eq Let_def)

lemma patch_keeps_field:
  assumes "k \<notin> set (keys (omit data (svc_id this)))"
  shows "map (\<lambda>r. get_field r k) (table (snd (Service_patch this i data ps s)))
           = map (\<lambda>r. get_field r k) (table s)"
  using patch_table[of this i data ps s] assms
  by (auto simp: patched_def get_field_assign_other)

text \<open>
  The calls of a patch: what comes before the update holds no update, and the update, when
  it is reached, is followed by at most one call, which is no update.
\<close>

lemma patch_calls:
  "\<exists>pre post. calls (snd (Service_patch this i data ps s)) = calls s @ pre @ post
     \<and> (\<forall>vals q. Update vals q \<notin> set pre)
     \<and> (post = [] \<or> (\<exists>c. post = [update_call this i data ps]
                         \<or> (post = [update_call this i data ps, c] \<and> (\<forall>vals q. c \<noteq> Update vals q))))"
proof -
  have *: "\<And>P s0. \<exists>c. calls (snd (case Service__getOrFind this i P s0 of
                 (Inl e, s') \<Rightarrow> (Inl (errorHandler e), s')
               | (Inr r, s') \<Rightarrow> (Inr (select_result ps (svc_id this) r), s'))) = calls s0 @ [c]
               \<and> (\<forall>vals q. c \<noteq> Update vals q)"
    using calls_getOrFind by simp
  show ?thesis
  proof (cases "i = JNull \<and> next_fault s \<noteq> None")
    case True
    then show ?thesis
      by (intro exI[of _ "[FindAndCount (find_call ps (default_filter (svc_id this)))]"] exI[of _ "[]"])
         (simp add: Service_patch_eq Let_def)
  next
    case False
    note nf = this
    let ?s1 = "if i = JNull then issue (FindAndCount (find_call ps (default_filter (svc_id this)))) s else s"
    let ?pre = "if i = JNull then [FindAndCount (find_call ps (default_filter (svc_id this)))] else []"
    have pre: "calls ?s1 = calls s @ ?pre" by simp
    show ?thesis
    proof (cases "next_fault ?s1 \<noteq> None")
      case True
      with nf pre show ?thesis
        by (intro exI[of _ ?pre] exI[of _ "[update_call this i data ps]"])
           (auto simp: Service_patch_eq Let_def)
    next
      case False
      let ?s2 = "(issue (update_call this i data ps) ?s1)\<lparr>table := patched this i data ps (table s)\<rparr>"
      let ?ids = "if i = JNull
                 then map (\<lambda>r. get_field r (svc_id this))
                        (select_rows (find_call ps (default_filter (svc_id this))) (table s))
                 else [i]"
      from *[of "findParams this ps ?ids" ?s2] obtain c where
        c: "calls (snd (case Service__getOrFind this i (findParams this ps ?ids) ?s2 of
                 (Inl e, s') \<Rightarrow> (Inl (errorHandler e), s')
               | (Inr r, s') \<Rightarrow> (Inr (select_result ps (svc_id this) r), s'))) = calls ?s2 @ [c]"
          "\<forall>vals q. c \<noteq> Update vals q" by blast
      have "Service_patch this i data ps s =
              (case Service__getOrFind this i (findParams this ps ?ids) ?s2 of
                 (Inl e, s') \<Rightarrow> (Inl (errorHandler e), s')
               | (Inr r, s') \<Rightarrow> (Inr (select_result ps (svc_id this) r), s'))"
        using nf False by (auto simp: Service_patch_eq Let_def)
      with c pre show ?thesis
        by (intro exI[of _ ?pre] exI[of _ "[update_call this i data ps, c]"]) auto
    qed
  qed
qed

lemma find_row_patched:
  assumes pk: "m_pk (svc_Model this) = svc_id this"
    and r: "find_row (m_pk (svc_Model this)) i (table s) = Some r"
    and nm: "\<not> matches (where_clause this i ps) r"
  shows "find_row (m_pk (svc_Model this)) i (patched this i data ps (table s)) = Some r"
proof -
  have "\<And>x. map_of (if matches (where_clause this i ps) x
                      then assign x (omit data (svc_id this)) else x) (svc_id this)
              = map_of x (svc_id this)"
    by (simp add: map_of_assign_other keys_omit)
  then have "find_row (svc_id this) i (patched this i data ps (table s))
               = map_option (\<lambda>x. if matches (where_clause this i ps) x
                      then assign x (omit data (svc_id this)) else x)
                   (find_row (svc_id this) i (table s))"
    unfolding find_row_def patched_def by (intro find_map) simp
  with pk r nm show ?thesis by simp
qed

lemma Service_update_found:
  assumes "find_row (m_pk (svc_Model this)) i (table s) = Some inst" "faults s = []"
  shows "Service_update this i (PObj d) ps s =
     (Inr (select ps (svc_id this) (set_values (m_pk (svc_Model this)) inst (replacement inst d))),
      (issue (InstanceUpdate inst (replacement inst d) (assign_opts no_opts (p_sequelize ps)))
         (issue (FindById i no_opts) s))
       \<lparr>table := map (\<lambda>r. if map_of r (m_pk (svc_Model this)) = map_of inst (m_pk (svc_Model this))
                           then set_values (m_pk (svc_Model this)) r (replacement inst d) else r)
                    (table s)\<rparr>)"
  using assms
  by (simp add: Service_update_def Model_findById_def instance_update_def then_do_def
        catch_with_def resolve_def toJSON_def no_opts_def Let_def)

lemma update_calls:
  assumes "find_row (m_pk (svc_Model this)) i (table s) = Some inst" "next_fault s = None"
  shows "calls (snd (Service_update this i (PObj d) ps s)) =
           calls s @ [FindById i no_opts,
                      InstanceUpdate inst (replacement inst d) (assign_opts no_opts (p_sequelize ps))]"
  using assms
  by (simp add: Service_update_def Model_findById_def instance_update_def then_do_def
        catch_with_def resolve_def toJSON_def no_opts_def Let_def split: option.splits)

lemma Service_remove_eq:
  "Service_remove this i ps s =
     (case Service__getOrFind this i ps s of
        (Inl e, s1) \<Rightarrow> (Inl (errorHandler e), s1)
      | (Inr d, s1) \<Rightarrow>
          (case next_fault s1 of
             Some e \<Rightarrow> (Inl (errorHandler (Raw e)), issue (destroy_call this i ps) s1)
           | None \<Rightarrow>
               (Inr (select_result ps (svc_id this) d),
                (issue (destroy_call this i ps) s1)
                  \<lparr>table := filter (\<lambda>r. \<not> matches (where_clause this i ps) r) (table s1)\<rparr>)))"
  by (simp add: Service_remove_def Model_destroy_eq destroy_call_def then_do_def catch_with_def
        resolve_def Let_def split: prod.splits sum.splits option.splits)

lemma remove_success:
  assumes "Service_remove this i ps s = (Inr v, s')"
  shows "\<exists>s1 c. Service__getOrFind this i ps s = (Inr v, s1)
           \<and> table s1 = table s
           \<and> calls s1 = calls s @ [c]
           \<and> calls s' = calls s @ [c, destroy_call this i ps]
           \<and> table s' = filter (\<lambda>r. \<not> matches (where_clause this i ps) r) (table s)"
proof -
  from assms obtain d s1 where g: "Service__getOrFind this i ps s = (Inr d, s1)"
    and nf: "next_fault s1 = None" and v: "v = select_result ps (svc_id this) d"
    and s': "s' = (issue (destroy_call this i ps) s1)
                    \<lparr>table := filter (\<lambda>r. \<not> matches (where_clause this i ps) r) (table s1)\<rparr>"
    by (auto simp: Service_remove_eq split: prod.splits sum.splits option.splits)
  from g have t: "table s1 = table s"
    using table_getOrFind[of this i ps s] by simp
  from g obtain c where c: "calls s1 = calls s @ [c]"
    using calls_getOrFind[of this i ps s] by auto
  from g v have "v = d" by (simp add: getOrFind_selected)
  with g t c s' show ?thesis by simp
qed


lemma calls_getOrFind_no_destroy:
  "\<exists>c. calls (snd (Service__getOrFind this i ps s)) = calls s @ [c] \<and> (\<forall>q. c \<noteq> Destroy q)"
  by (simp add: Service__getOrFind_eq split: option.splits)

text \<open>
  The calls of a remove: the call that resolves the target, and after it the delete, which
  is issued only when the target was resolved.
\<close>

lemma remove_calls:
  "\<exists>c. (\<forall>q. c \<noteq> Destroy q)
     \<and> (calls (snd (Service_remove this i ps s)) = calls s @ [c]
        \<or> (calls (snd (Service_remove this i ps s)) = calls s @ [c, destroy_call this i ps]
             \<and> (\<exists>d. fst (Service__getOrFind this i ps s) = Inr d)))"
proof -
  obtain r s1 where g: "Service__getOrFind this i ps s = (r, s1)"
    by (cases "Service__getOrFind this i ps s")
  with calls_getOrFind_no_destroy[of this i ps s] obtain c where
    c: "calls s1 = calls s @ [c]" "\<forall>q. c \<noteq> Destroy q" by auto
  show ?thesis
    using g c
    by (intro exI[of _ c]) (auto simp: Service_remove_eq split: sum.splits option.splits)
qed

section \<open>Evaluation of the examples\<close>

lemmas ex_defs = ex_service_def ex_engine_def ex_no_params_def ex_params_def ex_params_id5_def
  ex_params_select_def
  ex_params_offset_def ex_data_def ex_service_zero_def ex_service_paged_def ex_abc_row_def
  ex_abc_def ex_a1_def ex_data_id_def ex_a1_d4_def ex_options_def

lemmas eval_defs = Service_patch_def Service__getOrFind_def Service__find_def Service__get_def
  Service_remove_def Service_update_def Service_find_def Service_constructor_def
  Model_findAndCount_def Model_update_def Model_findById_def Model_destroy_def
  instance_update_def then_do_def catch_with_def resolve_def reject_def next_fault_def issue_def
  find_options_def find_call_def findParams_def default_filter_def filter_query_def query_of_def
  include_id_def getLimit_def getWhere_def getOrder_def assign_opts_def over_def no_opts_def empty_query_def
  id_in_query_def where_options_def where_clause_def update_call_def destroy_call_def
  select_rows_def window_def order_rows_def project_def pick_def omit_def assign_def matches_def
  where_of_def get_field_def mapIds_def select_def select_fields_def find_row_def toJSON_def
  set_values_def replacement_def keys_def truthy_def with_ids_def patched_def provided_def
  effective_paginate_def

section \<open>Bulk patch\<close>

lemma length_insert_row: "length (insert_row ord x ys) = Suc (length ys)"
  by (induction ys) simp_all

lemma length_order_rows [simp]: "length (order_rows ord rs) = length rs"
  by (cases ord) (simp_all add: order_rows_def, induction rs, simp_all add: length_insert_row)

lemma length_window: "length (window (Some n) off rs) \<le> n"
  by (simp add: window_def)

lemma window_fits:
  "lim = None \<or> (\<exists>n. lim = Some n \<and> length rs \<le> n) \<Longrightarrow> window lim (Some 0) rs = rs"
  by (auto simp: window_def)

text \<open>Among records with distinct ids, no more records have their id in a list than the list is long.\<close>

lemma length_with_ids:
  assumes "distinct (map (\<lambda>r. get_field r idf) rs)"
  shows "length (with_ids idf ids rs) \<le> length ids"
proof -
  let ?f = "\<lambda>r. get_field r idf"
  have d: "distinct (map ?f (with_ids idf ids rs))"
    using assms by (simp add: with_ids_def distinct_map_filter)
  have "length (with_ids idf ids rs) = length (map ?f (with_ids idf ids rs))" by simp
  also have "\<dots> = card (set (map ?f (with_ids idf ids rs)))"
    using d by (simp only: distinct_card)
  also have "\<dots> \<le> card (set ids)"
    by (rule card_mono) (auto simp: with_ids_def)
  also have "\<dots> \<le> length ids" by (rule card_length)
  finally show ?thesis .
qed

text \<open>
  The bulk patch where the passthrough options leave the re-fetch alone. Let the
  passthrough options of \<^verbatim>\<open>patch(null, data, params)\<close> set neither \<^verbatim>\<open>where\<close> nor
  \<^verbatim>\<open>offset\<close>, and let them set no \<^verbatim>\<open>limit\<close> or the identifier values of the stored records
  be distinct. A successful call has then issued exactly three engine calls: the find
  whose where clause is the caller's field predicates and whose rows, read before the
  update, give the snapshot of ids; the update; and a find whose where clause asks for
  the identifier field to be in the snapshot. The records returned are the records of the
  table after the update whose id is in the snapshot, ordered and projected as the
  options and the selection list say, whether or not they still match the caller's
  filter.
\<close>

lemma bulk_patch_refetches_snapshot:
  assumes ok: "Service_patch this JNull data ps s = (Inr v, s')"
    and pass: "o_where (p_sequelize ps) = None" "o_offset (p_sequelize ps) = None"
    and lim: "o_limit (p_sequelize ps) = None
               \<or> distinct (map (\<lambda>r. get_field r (svc_id this)) (table s))"
  shows "\<exists>page0.
           fst (Service__find this ps (default_filter (svc_id this)) s) = Inr page0
         \<and> o_where (find_call ps (default_filter (svc_id this))) = Some (q_fields (query_of ps))
         \<and> page_data page0 = select_rows (find_call ps (default_filter (svc_id this))) (table s)
         \<and> calls s' = calls s @
             [FindAndCount (find_call ps (default_filter (svc_id this))),
              update_call this JNull data ps,
              FindAndCount (find_call (findParams this ps (mapIds this page0)) (default_filter (svc_id this)))]
         \<and> o_where (find_call (findParams this ps (mapIds this page0)) (default_filter (svc_id this)))
             = Some [(svc_id this, Ops [(In, JArr (mapIds this page0))])]
         \<and> table s' = patched this JNull data ps (table s)
         \<and> v = Many (map (select ps (svc_id this))
                  (map (project (o_attributes (p_sequelize ps)))
                     (order_rows (over (Some []) (o_order (p_sequelize ps)))
                        (with_ids (svc_id this) (mapIds this page0) (table s')))))"
proof -
  from ok have nf: "next_fault s = None"
    by (auto simp: Service_patch_eq Let_def split: if_splits)
  let ?q0 = "find_call ps (default_filter (svc_id this))"
  define page0 where "page0 =
     \<lparr>page_total = length (filter (matches (where_of ?q0)) (table s)),
      page_limit = f_limit (fst (default_filter (svc_id this) (query_of ps))),
      page_skip = f_skip (fst (default_filter (svc_id this) (query_of ps))),
      page_data = select_rows ?q0 (table s)\<rparr>"
  have p0: "fst (Service__find this ps (default_filter (svc_id this)) s) = Inr page0"
    using nf by (simp add: Service__find_eq page0_def)
  have ids: "mapIds this page0 =
      map (\<lambda>r. get_field r (svc_id this)) (select_rows ?q0 (table s))"
    by (simp add: mapIds_def page0_def)
  let ?q1 = "find_call (findParams this ps (mapIds this page0)) (default_filter (svc_id this))"
  have q1: "o_where ?q1 = Some [(svc_id this, Ops [(In, JArr (mapIds this page0))])]"
      "o_limit ?q1 = o_limit (p_sequelize ps)" "o_offset ?q1 = Some 0"
      "o_attributes ?q1 = o_attributes (p_sequelize ps)"
      "o_order ?q1 = over (Some []) (o_order (p_sequelize ps))"
    using pass by (simp_all add: find_call_findParams assign_opts_def over_def split: option.splits)
  have res: "calls s' = calls s @
             [FindAndCount ?q0, update_call this JNull data ps, FindAndCount ?q1]
         \<and> table s' = patched this JNull data ps (table s)
         \<and> v = Many (map (select ps (svc_id this)) (select_rows ?q1 (table s')))"
    using ok nf
    by (auto simp: Service_patch_eq Service__getOrFind_eq ids Let_def
          split: if_splits option.splits)
  let ?found = "order_rows (over (Some []) (o_order (p_sequelize ps)))
                  (with_ids (svc_id this) (mapIds this page0) (table s'))"
  have fits: "o_limit (p_sequelize ps) = None
              \<or> (\<exists>n. o_limit (p_sequelize ps) = Some n \<and> length ?found \<le> n)"
  proof (cases "o_limit (p_sequelize ps)")
    case None
    then show ?thesis by simp
  next
    case (Some n)
    with lim have d: "distinct (map (\<lambda>r. get_field r (svc_id this)) (table s))" by simp
    have "map (\<lambda>r. get_field r (svc_id this)) (table s')
            = map (\<lambda>r. get_field r (svc_id this)) (table s)"
      using res by (simp add: patched_def get_field_assign_other keys_omit)
    with d have "length (with_ids (svc_id this) (mapIds this page0) (table s'))
                   \<le> length (mapIds this page0)"
      by (intro length_with_ids) simp
    moreover have "o_limit ?q0 = Some n"
      using Some
      by (simp add: find_call_def find_options_def assign_opts_def over_def Let_def
            split: option.splits)
    then have "length (mapIds this page0) \<le> n"
      by (simp add: ids select_rows_def length_window)
    ultimately show ?thesis using Some by simp
  qed
  have rows: "select_rows ?q1 (table s') = map (project (o_attributes (p_sequelize ps))) ?found"
    using fits by (simp add: select_rows_def where_of_def q1 with_ids_def window_fits)
  have q0: "o_where ?q0 = Some (q_fields (query_of ps))"
    using pass(1)
    by (simp add: find_call_def find_options_def default_filter_def filter_query_def
          getWhere_def assign_opts_def over_def Let_def split: option.splits)
  have d0: "page_data page0 = select_rows ?q0 (table s)"
    by (simp add: page0_def)
  from p0 q0 d0 q1(1) res rows show ?thesis by auto
qed

text \<open>
  With the selection list \<^verbatim>\<open>['status']\<close> the first find still reads the ids, and the bulk
  patch returns both patched records with their status and their id.
\<close>

lemma bulk_patch_select_example:
  "fst (Service_patch ex_service JNull ex_data ex_params_select ex_engine) =
     Inr (Many [[(''id'', JNum 1), (''status'', JStr ''x'')],
                [(''id'', JNum 2), (''status'', JStr ''x'')]])"
  by (simp add: ex_defs eval_defs)

text \<open>
  Claim C1. A bulk patch \<^verbatim>\<open>patch(null, data, params)\<close> is to resolve the caller's filter
  to a snapshot of ids, issue the update and re-fetch by that snapshot, so that it returns
  exactly the records whose ids were in the snapshot. The code does not do so at
  \<^verbatim>\<open>patch(null, {status: 'x'}, {query: {status: 'y'}, sequelize: {offset: 1}})\<close> on the
  records 1 and 2 of status \<open>y\<close> and 3 of status \<open>z\<close>: \<^verbatim>\<open>_find\<close> merges the passthrough
  offset into both of its queries, so the snapshot is the id 2 alone, the update changes
  the records 1 and 2, and the re-fetch, skipping one record again, returns no record
  although the record 2, whose id is in the snapshot, is in the table.
\<close>

theorem bulk_patch_offset_failing_input:
  "fst (Service__find ex_service ex_params_offset (default_filter ''id'') ex_engine) =
       Inr \<lparr>page_total = 2, page_limit = None, page_skip = 0,
            page_data = [[(''id'', JNum 2), (''status'', JStr ''y'')]]\<rparr>
   \<and> table (snd (Service_patch ex_service JNull ex_data ex_params_offset ex_engine)) =
       [[(''id'', JNum 1), (''status'', JStr ''x'')],
        [(''id'', JNum 2), (''status'', JStr ''x'')],
        [(''id'', JNum 3), (''status'', JStr ''z'')]]
   \<and> fst (Service_patch ex_service JNull ex_data ex_params_offset ex_engine) = Inr (Many [])
   \<and> with_ids ''id'' [JNum 2]
        (table (snd (Service_patch ex_service JNull ex_data ex_params_offset ex_engine)))
      = [[(''id'', JNum 2), (''status'', JStr ''x'')]]"
  by (simp add: ex_defs eval_defs)

section \<open>Update\<close>

text \<open>
  Claim C2. When a record with the id exists, the data is not an array and the engine
  does not fail, the replacement payload of \<^verbatim>\<open>update\<close> holds, for every field of the
  stored record, the caller's value if the data provides one and \<^verbatim>\<open>null\<close> otherwise;
  the payload is what \<^verbatim>\<open>instance.update\<close> is called with, and the record returned has
  these values in every field but the primary key, which the engine keeps. A patch, by
  contrast, leaves every field that its data does not mention as it was, in every record.
\<close>

theorem update_replaces_patch_keeps:
  "(find_row (m_pk (svc_Model this)) i (table s) = Some inst \<and> faults s = [] \<longrightarrow>
      (\<forall>k \<in> set (keys inst). get_field (replacement inst d) k = provided d k)
    \<and> (\<exists>s'. Service_update this i (PObj d) ps s =
               (Inr (select ps (svc_id this)
                       (set_values (m_pk (svc_Model this)) inst (replacement inst d))), s')
           \<and> calls s' = calls s @
               [FindById i no_opts,
                InstanceUpdate inst (replacement inst d) (assign_opts no_opts (p_sequelize ps))])
    \<and> (\<forall>k \<in> set (keys inst). k \<noteq> m_pk (svc_Model this) \<longrightarrow>
          get_field (set_values (m_pk (svc_Model this)) inst (replacement inst d)) k
            = provided d k))
   \<and> (\<forall>k. k \<notin> set (keys d) \<longrightarrow>
         map (\<lambda>r. get_field r k) (table (snd (Service_patch this i d ps s)))
           = map (\<lambda>r. get_field r k) (table s))"
proof (intro conjI impI allI ballI)
  fix k assume "k \<in> set (keys inst)"
  then show "get_field (replacement inst d) k = provided d k"
    by (rule get_field_replacement)
next
  assume a: "find_row (m_pk (svc_Model this)) i (table s) = Some inst \<and> faults s = []"
  then have "Service_update this i (PObj d) ps s =
     (Inr (select ps (svc_id this) (set_values (m_pk (svc_Model this)) inst (replacement inst d))),
      snd (Service_update this i (PObj d) ps s))"
    by (simp add: Service_update_found)
  moreover from a have "calls (snd (Service_update this i (PObj d) ps s)) =
           calls s @ [FindById i no_opts,
                      InstanceUpdate inst (replacement inst d) (assign_opts no_opts (p_sequelize ps))]"
    by (simp add: update_calls)
  ultimately show "\<exists>s'. Service_update this i (PObj d) ps s =
               (Inr (select ps (svc_id this)
                       (set_values (m_pk (svc_Model this)) inst (replacement inst d))), s')
           \<and> calls s' = calls s @
               [FindById i no_opts,
                InstanceUpdate inst (replacement inst d) (assign_opts no_opts (p_sequelize ps))]"
    by blast
next
  fix k assume "k \<in> set (keys inst)" "k \<noteq> m_pk (svc_Model this)"
  then show "get_field (set_values (m_pk (svc_Model this)) inst (replacement inst d)) k
            = provided d k"
    by (rule get_field_set_values)
next
  fix k assume "k \<notin> set (keys d)"
  then show "map (\<lambda>r. get_field r k) (table (snd (Service_patch this i d ps s)))
           = map (\<lambda>r. get_field r k) (table s)"
    by (intro patch_keeps_field keys_omit_subset)
qed

theorem update_replaces_patch_keeps_witness:
  "find_row ''id'' (JNum 7) (table ex_abc) = Some ex_abc_row \<and> faults ex_abc = []
   \<and> fst (Service_update ex_service (JNum 7) (PObj ex_a1) ex_no_params ex_abc) =
       Inr [(''id'', JNum 7), (''a'', JNum 1), (''b'', JNull), (''c'', JNull)]
   \<and> fst (Service_patch ex_service (JNum 7) ex_a1 ex_no_params ex_abc) =
       Inr (One [(''id'', JNum 7), (''a'', JNum 1), (''b'', JNum 5), (''c'', JNum 6)])
   \<and> map (\<lambda>r. get_field r ''b'')
        (table (snd (Service_patch ex_service (JNum 7) ex_a1 ex_no_params ex_abc))) = [JNum 5]
   \<and> map (\<lambda>r. get_field r ''c'')
        (table (snd (Service_patch ex_service (JNum 7) ex_a1 ex_no_params ex_abc))) = [JNum 6]"
proof -
  have h: "find_row (m_pk (svc_Model ex_service)) (JNum 7) (table ex_abc) = Some ex_abc_row
             \<and> faults ex_abc = []"
    by (simp add: ex_defs find_row_def)
  have nb: "''b'' \<notin> set (keys ex_a1)" and nc: "''c'' \<notin> set (keys ex_a1)"
    by (simp_all add: ex_defs keys_def)
  from update_replaces_patch_keeps[of ex_service "JNum 7" ex_abc ex_abc_row ex_a1 ex_no_params]
    h nb nc
  show ?thesis
    by (simp add: ex_defs eval_defs)
qed

text \<open>
  Claim C3. An update whose data is an array is rejected as an invalid operation, with
  the message of the source; the engine's state is the one before the call, so no engine
  call has been issued and no record has changed.
\<close>

theorem update_rejects_array:
  "Service_update this i (PArr ds) ps s =
     (Inl (InvalidOperation ''Not replacing multiple records. Did you mean `patch`?''), s)"
  by (simp add: Service_update_def reject_def)

theorem update_rejects_array_witness:
  "Service_update ex_service (JNum 1) (PArr [ex_data, ex_data]) ex_no_params ex_engine =
     (Inl (InvalidOperation ''Not replacing multiple records. Did you mean `patch`?''), ex_engine)"
  by (rule update_rejects_array)

text \<open>
  Claim C10. When the record exists and the lookup does not fail, the replacement write
  that \<^verbatim>\<open>update\<close> issues carries a payload whose keys are exactly the keys of the stored
  record: a field of the data that the record does not have is left out.
\<close>

theorem update_payload_keys:
  assumes "find_row (m_pk (svc_Model this)) i (table s) = Some inst" "next_fault s = None"
  shows "\<exists>copy options.
           calls (snd (Service_update this i (PObj d) ps s)) =
             calls s @ [FindById i no_opts, InstanceUpdate inst copy options]
         \<and> copy = replacement inst d
         \<and> set (keys copy) = set (keys inst)"
  using update_calls[OF assms] by (simp add: keys_replacement)

theorem update_payload_keys_witness:
  "find_row ''id'' (JNum 7) (table ex_abc) = Some ex_abc_row \<and> next_fault ex_abc = None
   \<and> calls (snd (Service_update ex_service (JNum 7) (PObj ex_a1_d4) ex_no_params ex_abc)) =
       [FindById (JNum 7) no_opts,
        InstanceUpdate ex_abc_row
          [(''id'', JNull), (''a'', JNum 1), (''b'', JNull), (''c'', JNull)] no_opts]
   \<and> set (keys (replacement ex_abc_row ex_a1_d4)) = {''id'', ''a'', ''b'', ''c''}"
proof -
  have h: "find_row (m_pk (svc_Model ex_service)) (JNum 7) (table ex_abc) = Some ex_abc_row"
    "next_fault ex_abc = None"
    by (simp_all add: ex_defs find_row_def next_fault_def)
  from update_payload_keys[OF h, of ex_a1_d4 ex_no_params] h show ?thesis
    by (simp add: ex_defs eval_defs)
qed

section \<open>Remove\<close>

text \<open>
  Claim C4. Every \<^verbatim>\<open>remove\<close> first issues the call that resolves its target through
  \<^verbatim>\<open>_getOrFind\<close>, the record for an id or the unpaginated list for \<^verbatim>\<open>null\<close>; the delete
  follows only when the target was resolved, and nothing follows the delete. A successful
  \<^verbatim>\<open>remove\<close> has resolved its target on the table as it was before the call, and the
  value it returns is exactly the value that was resolved.
\<close>

theorem remove_returns_snapshot:
  "(\<exists>c. (\<forall>q. c \<noteq> Destroy q)
      \<and> (calls (snd (Service_remove this i ps s)) = calls s @ [c]
         \<or> (calls (snd (Service_remove this i ps s)) = calls s @ [c, destroy_call this i ps]
              \<and> (\<exists>d. fst (Service__getOrFind this i ps s) = Inr d))))
   \<and> (Service_remove this i ps s = (Inr v, s') \<longrightarrow>
        (\<exists>s1 c. Service__getOrFind this i ps s = (Inr v, s1)
           \<and> table s1 = table s
           \<and> calls s1 = calls s @ [c]
           \<and> calls s' = calls s @ [c, destroy_call this i ps]
           \<and> table s' = filter (\<lambda>r. \<not> matches (where_clause this i ps) r) (table s)))"
  using remove_calls remove_success by blast

theorem remove_returns_snapshot_witness:
  "fst (Service_remove ex_service JNull ex_params ex_engine) =
       Inr (Many [[(''id'', JNum 1), (''status'', JStr ''y'')],
                  [(''id'', JNum 2), (''status'', JStr ''y'')]])
   \<and> fst (Service__getOrFind ex_service JNull ex_params ex_engine) =
       Inr (Many [[(''id'', JNum 1), (''status'', JStr ''y'')],
                  [(''id'', JNum 2), (''status'', JStr ''y'')]])
   \<and> table (snd (Service_remove ex_service JNull ex_params ex_engine)) =
       [[(''id'', JNum 3), (''status'', JStr ''z'')]]
   \<and> calls (snd (Service_remove ex_service JNull ex_params ex_engine)) =
       [FindAndCount (find_call ex_params (default_filter ''id'')), destroy_call ex_service JNull ex_params]"
proof -
  have run: "Service_remove ex_service JNull ex_params ex_engine =
      (Inr (Many [[(''id'', JNum 1), (''status'', JStr ''y'')],
                  [(''id'', JNum 2), (''status'', JStr ''y'')]]),
       snd (Service_remove ex_service JNull ex_params ex_engine))"
    by (simp add: ex_defs eval_defs)
  from remove_returns_snapshot[of ex_service JNull ex_params ex_engine
      "Many [[(''id'', JNum 1), (''status'', JStr ''y'')],
             [(''id'', JNum 2), (''status'', JStr ''y'')]]"
      "snd (Service_remove ex_service JNull ex_params ex_engine)"] run
  show ?thesis
    by (simp add: ex_defs eval_defs)
qed




section \<open>Find\<close>

text \<open>
  Claim C6, as amended. The pagination configuration in effect is the \<^verbatim>\<open>paginate\<close> of the
  params when there is one and that of the service otherwise. A successful \<^verbatim>\<open>find\<close>
  returns the page of \<^verbatim>\<open>_find\<close>, with total, limit, skip and data, when the
  configuration has a default page size other than \<open>0\<close>; when it has no default, or the
  default \<open>0\<close>, it returns the data of that page alone.
\<close>

theorem find_page_or_data:
  assumes "Service_find this ps s = (Inr v, s')"
  shows "\<exists>page.
           Service__find this ps (\<lambda>wh. filter_query (svc_id this) wh (Some (effective_paginate this ps))) s
             = (Inr page, s')
         \<and> (if truthy (pg_default (effective_paginate this ps))
            then v = Page page else v = Data (page_data page))"
  using assms by (auto simp: Service_find_eq split: prod.splits sum.splits if_splits)

theorem find_page_or_data_witness:
  "fst (Service_find ex_service_paged ex_no_params ex_engine) =
     Inr (Page \<lparr>page_total = 3, page_limit = Some 2, page_skip = 0,
                page_data = [[(''id'', JNum 1), (''status'', JStr ''y'')],
                             [(''id'', JNum 2), (''status'', JStr ''y'')]]\<rparr>)
   \<and> truthy (pg_default (effective_paginate ex_service_paged ex_no_params))
   \<and> fst (Service_find ex_service ex_no_params ex_engine) = Inr (Data (table ex_engine))
   \<and> \<not> truthy (pg_default (effective_paginate ex_service ex_no_params))"
proof -
  have run: "Service_find ex_service_paged ex_no_params ex_engine =
     (Inr (Page \<lparr>page_total = 3, page_limit = Some 2, page_skip = 0,
                page_data = [[(''id'', JNum 1), (''status'', JStr ''y'')],
                             [(''id'', JNum 2), (''status'', JStr ''y'')]]\<rparr>),
      snd (Service_find ex_service_paged ex_no_params ex_engine))"
    by (simp add: ex_defs eval_defs)
  have run': "Service_find ex_service ex_no_params ex_engine =
     (Inr (Data (table ex_engine)), snd (Service_find ex_service ex_no_params ex_engine))"
    by (simp add: ex_defs eval_defs)
  from find_page_or_data[OF run] find_page_or_data[OF run'] show ?thesis
    by (simp add: ex_defs eval_defs)
qed

text \<open>
  Claim C6 as stated fails for a configuration whose default page size is \<open>0\<close>: it has a
  default, and \<^verbatim>\<open>find\<close> returns the bare data.
\<close>

theorem find_default_zero_counterexample:
  "pg_default (effective_paginate ex_service_zero ex_no_params) = Some 0
   \<and> fst (Service_find ex_service_zero ex_no_params ex_engine) =
       Inr (Data [[(''id'', JNum 1), (''status'', JStr ''y'')],
                  [(''id'', JNum 2), (''status'', JStr ''y'')],
                  [(''id'', JNum 3), (''status'', JStr ''z'')]])"
  by (simp add: ex_defs eval_defs)

section \<open>Construction\<close>

text \<open>
  Claim C7. Constructing the service without options, or with options that have no Model,
  fails with a configuration error; with a Model the construction succeeds, the service
  holds that Model, and its identifier field is \<^verbatim>\<open>id\<close> when the options name none, and
  the name they give when it is not empty.
\<close>

theorem constructor_checks_options:
  "Service_constructor None = Inl (ConfigurationError ''Sequelize options have to be provided'')
   \<and> (opt_Model os = None \<longrightarrow>
        Service_constructor (Some os) = Inl (ConfigurationError ''You must provide a Sequelize Model''))
   \<and> (opt_Model os = Some m \<longrightarrow>
        (\<exists>svc. Service_constructor (Some os) = Inr svc \<and> svc_Model svc = m
           \<and> (opt_id os = None \<longrightarrow> svc_id svc = ''id'')
           \<and> (\<forall>n. opt_id os = Some n \<and> n \<noteq> [] \<longrightarrow> svc_id svc = n)))"
  by (simp add: Service_constructor_def)

theorem constructor_checks_options_witness:
  "opt_Model (ex_options\<lparr>opt_Model := None\<rparr>) = None
   \<and> Service_constructor (Some (ex_options\<lparr>opt_Model := None\<rparr>)) =
       Inl (ConfigurationError ''You must provide a Sequelize Model'')
   \<and> opt_Model ex_options = Some \<lparr>m_pk = ''id''\<rparr> \<and> opt_id ex_options = None
   \<and> Service_constructor (Some ex_options) = Inr ex_service"
  using constructor_checks_options[of "ex_options\<lparr>opt_Model := None\<rparr>" "\<lparr>m_pk = ''id''\<rparr>"]
    constructor_checks_options[of ex_options "\<lparr>m_pk = ''id''\<rparr>"]
  by (simp add: ex_defs Service_constructor_def)

section \<open>Patch\<close>

text \<open>
  Claim C8. Whatever the id, the data and the params of a patch, every update that the
  call issues carries the data without the identifier field, and the identifier field of
  every record of the table is after the call what it was before.
\<close>

theorem patch_never_changes_id:
  "(\<forall>vals q. Update vals q \<in> set (calls (snd (Service_patch this i data ps s))) \<longrightarrow>
       Update vals q \<in> set (calls s)
       \<or> (vals = omit data (svc_id this) \<and> svc_id this \<notin> set (keys vals)))
   \<and> map (\<lambda>r. get_field r (svc_id this)) (table (snd (Service_patch this i data ps s)))
       = map (\<lambda>r. get_field r (svc_id this)) (table s)"
proof
  from patch_calls[of this i data ps s] obtain pre post where
    c: "calls (snd (Service_patch this i data ps s)) = calls s @ pre @ post"
    and pre: "\<forall>vals q. Update vals q \<notin> set pre"
    and post: "post = [] \<or> (\<exists>c. post = [update_call this i data ps]
                         \<or> (post = [update_call this i data ps, c] \<and> (\<forall>vals q. c \<noteq> Update vals q)))"
    by blast
  show "\<forall>vals q. Update vals q \<in> set (calls (snd (Service_patch this i data ps s))) \<longrightarrow>
       Update vals q \<in> set (calls s)
       \<or> (vals = omit data (svc_id this) \<and> svc_id this \<notin> set (keys vals))"
    using c pre post by (auto simp: update_call_def keys_omit)
next
  show "map (\<lambda>r. get_field r (svc_id this)) (table (snd (Service_patch this i data ps s)))
       = map (\<lambda>r. get_field r (svc_id this)) (table s)"
    by (rule patch_keeps_field) (rule keys_omit)
qed

theorem patch_never_changes_id_witness:
  "calls (snd (Service_patch ex_service (JNum 1) ex_data_id ex_no_params ex_engine)) =
     [Update [(''status'', JStr ''x'')] (no_opts\<lparr>o_where := Some [(''id'', Equals (JNum 1))]\<rparr>),
      FindById (JNum 1) no_opts]
   \<and> table (snd (Service_patch ex_service (JNum 1) ex_data_id ex_no_params ex_engine)) =
       [[(''id'', JNum 1), (''status'', JStr ''x'')],
        [(''id'', JNum 2), (''status'', JStr ''y'')],
        [(''id'', JNum 3), (''status'', JStr ''z'')]]
   \<and> map (\<lambda>r. get_field r ''id'')
        (table (snd (Service_patch ex_service (JNum 1) ex_data_id ex_no_params ex_engine)))
      = [JNum 1, JNum 2, JNum 3]"
  using patch_never_changes_id[of ex_service "JNum 1" ex_data_id ex_no_params ex_engine]
  by (simp add: ex_defs eval_defs)

text \<open>
  Claim C9, as amended. Let the id of a patch not be \<^verbatim>\<open>null\<close>, the identifier field of
  the service be the primary key of the Model, and the engine not fail. If a record with
  that id exists and does not satisfy the caller's predicates on the fields other than
  the identifier field, the call succeeds: it issues the update and then a lookup by the
  id alone, returns that record as it was, projected by the selection list and the
  attribute list of the passthrough options, and leaves it as it was in the table.
\<close>

theorem patch_by_id_skips_unmatched:
  assumes "i \<noteq> JNull" and "faults s = []"
    and "m_pk (svc_Model this) = svc_id this"
    and "find_row (m_pk (svc_Model this)) i (table s) = Some r"
    and "\<not> matches (omit (q_fields (query_of ps)) (svc_id this)) r"
  shows "\<exists>s'. Service_patch this i data ps s =
             (Inr (One (select ps (svc_id this) (project (o_attributes (p_sequelize ps)) r))), s')
           \<and> find_row (m_pk (svc_Model this)) i (table s') = Some r
           \<and> calls s' = calls s @ [update_call this i data ps, FindById i (p_sequelize ps)]"
proof -
  have nm: "\<not> matches (where_clause this i ps) r"
    using assms(1,5) matches_set_field by (auto simp: where_clause_id)
  have fr: "find_row (m_pk (svc_Model this)) i (patched this i data ps (table s)) = Some r"
    using assms(3,4) nm by (rule find_row_patched)
  show ?thesis
    using assms(1,2) fr
    by (simp add: Service_patch_eq Service__getOrFind_eq select_None Let_def)
qed

theorem patch_by_id_skips_unmatched_witness:
  "find_row ''id'' (JNum 3) (table ex_engine) = Some [(''id'', JNum 3), (''status'', JStr ''z'')]
   \<and> \<not> matches (omit (q_fields (query_of ex_params)) ''id'') [(''id'', JNum 3), (''status'', JStr ''z'')]
   \<and> fst (Service_patch ex_service (JNum 3) ex_data ex_params ex_engine) =
       Inr (One [(''id'', JNum 3), (''status'', JStr ''z'')])
   \<and> table (snd (Service_patch ex_service (JNum 3) ex_data ex_params ex_engine)) = table ex_engine"
proof -
  have h: "JNum 3 \<noteq> JNull" "faults ex_engine = []"
    "m_pk (svc_Model ex_service) = svc_id ex_service"
    "find_row (m_pk (svc_Model ex_service)) (JNum 3) (table ex_engine)
       = Some [(''id'', JNum 3), (''status'', JStr ''z'')]"
    "\<not> matches (omit (q_fields (query_of ex_params)) (svc_id ex_service))
         [(''id'', JNum 3), (''status'', JStr ''z'')]"
    by (simp_all add: ex_defs eval_defs)
  from patch_by_id_skips_unmatched[OF h, of ex_data] h show ?thesis
    by (simp add: ex_defs eval_defs)
qed

text \<open>
  Claim C9 as stated fails when the caller's filter has a predicate on the identifier
  field itself: the where clause of the update replaces it by the id. The record 3 does
  not satisfy \<^verbatim>\<open>{id: 5}\<close>, and \<^verbatim>\<open>patch(3, {status: 'x'}, {query: {id: 5}})\<close> changes it
  and returns it changed.
\<close>

theorem patch_by_id_filter_on_id_counterexample:
  "find_row ''id'' (JNum 3) (table ex_engine) = Some [(''id'', JNum 3), (''status'', JStr ''z'')]
   \<and> \<not> matches (q_fields (query_of ex_params_id5)) [(''id'', JNum 3), (''status'', JStr ''z'')]
   \<and> fst (Service_patch ex_service (JNum 3) ex_data ex_params_id5 ex_engine) =
       Inr (One [(''id'', JNum 3), (''status'', JStr ''x'')])
   \<and> find_row ''id'' (JNum 3)
        (table (snd (Service_patch ex_service (JNum 3) ex_data ex_params_id5 ex_engine)))
      = Some [(''id'', JNum 3), (''status'', JStr ''x'')]"
  by (simp add: ex_defs eval_defs)

end
